theory Spec2Isabelle
  imports Complex_Main "HOL-Library.Word"
begin

section \<open>Metric name sanitisation (collector helper)\<close>

text \<open>
  The Go source:
  \<^verbatim>\<open>
  metricNameRegex = regexp.MustCompile(`_*[^0-9A-Za-z_]+_*`)
  func SanitizeMetricName(metricName string) string {
      return metricNameRegex.ReplaceAllString(metricName, "_")
  }
  \<close>
  Strings are byte lists. A character outside ASCII is several bytes in UTF-8, none of
  which is in \<open>[0-9A-Za-z_]\<close>, so a run of such characters is a run of bytes outside the
  class and the byte-level model replaces exactly what the rune-level regexp replaces.
\<close>

definition isMetricChar :: "char \<Rightarrow> bool" where
  \<comment> \<open>the character class \<open>[0-9A-Za-z_]\<close>\<close>
  "isMetricChar c =
     (let n = (of_char c :: nat)
      in (48 \<le> n \<and> n \<le> 57) \<or> (65 \<le> n \<and> n \<le> 90) \<or> (97 \<le> n \<and> n \<le> 122) \<or> n = 95)"

definition isUnderscore :: "char \<Rightarrow> bool" where
  "isUnderscore c = (c = CHR ''_'')"

text \<open>
  A match of \<open>_*[^0-9A-Za-z_]+_*\<close> anchored at the head of the string; the result is the
  text after the match. The three parts are greedy. The first \<open>_*\<close> takes every leading
  underscore: giving one back never helps, because the next part needs a character outside
  the class and an underscore is inside it. The middle part takes the whole run of
  characters outside the class and needs at least one; the last takes every underscore that
  follows.
\<close>

definition metricNameRegex_match :: "string \<Rightarrow> string option" where
  "metricNameRegex_match s =
     (let r1 = dropWhile isUnderscore s;
          bad = takeWhile (\<lambda>c. \<not> isMetricChar c) r1;
          r2 = dropWhile (\<lambda>c. \<not> isMetricChar c) r1
      in if bad = [] then None else Some (dropWhile isUnderscore r2))"

lemma metricNameRegex_match_shorter:
  "metricNameRegex_match s = Some r \<Longrightarrow> length r < length s"
proof -
  assume m: "metricNameRegex_match s = Some r"
  define r1 where "r1 = dropWhile isUnderscore s"
  define r2 where "r2 = dropWhile (\<lambda>c. \<not> isMetricChar c) r1"
  from m have bad: "takeWhile (\<lambda>c. \<not> isMetricChar c) r1 \<noteq> []"
    and r: "r = dropWhile isUnderscore r2"
    by (auto simp: metricNameRegex_match_def Let_def r1_def r2_def split: if_splits)
  have "length r \<le> length r2" unfolding r by (rule length_dropWhile_le)
  moreover have "length r2 < length r1"
  proof -
    have "length (takeWhile (\<lambda>c. \<not> isMetricChar c) r1) + length r2 = length r1"
      unfolding r2_def by (metis length_append takeWhile_dropWhile_id)
    with bad show ?thesis by (cases "takeWhile (\<lambda>c. \<not> isMetricChar c) r1") auto
  qed
  moreover have "length r1 \<le> length s" unfolding r1_def by (rule length_dropWhile_le)
  ultimately show ?thesis by simp
qed

text \<open>
  \<open>ReplaceAllString\<close> with the replacement \<open>"_"\<close>: scan from the left; where the regexp
  matches, write one underscore and go on after the match, otherwise copy the character.
  A match is never empty, so the scan needs no special case for empty matches.
\<close>

function ReplaceAllString :: "string \<Rightarrow> string" where
  "ReplaceAllString [] = []"
| "ReplaceAllString (c # cs) =
     (case metricNameRegex_match (c # cs) of
        Some rest \<Rightarrow> CHR ''_'' # ReplaceAllString rest
      | None \<Rightarrow> c # ReplaceAllString cs)"
  by pat_completeness auto
termination
  by (relation "measure length") (auto dest: metricNameRegex_match_shorter)

definition SanitizeMetricName :: "string \<Rightarrow> string" where
  "SanitizeMetricName metricName = ReplaceAllString metricName"

text \<open>
  The sanitisation as the specification words it: every maximal run of characters outside
  \<open>[A-Za-z0-9_]\<close> becomes one underscore and every character inside the class is kept.
\<close>

function spec_collapse_runs :: "string \<Rightarrow> string" where
  "spec_collapse_runs [] = []"
| "spec_collapse_runs (c # cs) =
     (if isMetricChar c then c # spec_collapse_runs cs
      else CHR ''_'' # spec_collapse_runs (dropWhile (\<lambda>c. \<not> isMetricChar c) cs))"
  by pat_completeness auto
termination
  by (relation "measure length") (auto intro: le_imp_less_Suc length_dropWhile_le)

section \<open>Perf counter collector\<close>

subsection \<open>Counter scaling\<close>

type_synonym uint64 = "64 word"

text \<open>
  Modelled from the spec: \<open>perf.ProfileValue\<close> is declared in the perf-utils library, not in
  the repository's files. The spec gives its fields \<open>{value, time_enabled, time_running}\<close>;
  the kernel returns each as an unsigned 64-bit integer, so subtraction wraps around.
\<close>

record ProfileValue =
  Value :: uint64
  TimeEnabled :: uint64
  TimeRunning :: uint64

definition zeroProfileValue :: ProfileValue where
  \<comment> \<open>Go's zero value, read from a map that has no entry for the key\<close>
  "zeroProfileValue = \<lparr>Value = 0, TimeEnabled = 0, TimeRunning = 0\<rparr>"




subsection \<open>Profiles and the collector's tables\<close>

text \<open>
  A profile read from the kernel: a nil pointer field is \<open>None\<close>. The counters are listed
  with their metric names in the order of the blocks of \<open>aggHardwareCounters\<close> and
  \<open>aggCacheCounters\<close>; every block does the same with its own field and name.
\<close>

record HardwareProfile =
  CPUCycles :: "ProfileValue option"
  Instructions :: "ProfileValue option"
  BranchInstr :: "ProfileValue option"
  BranchMisses :: "ProfileValue option"
  CacheRefs :: "ProfileValue option"
  CacheMisses :: "ProfileValue option"
  RefCPUCycles :: "ProfileValue option"

record CacheProfile =
  L1DataReadHit :: "ProfileValue option"
  L1DataReadMiss :: "ProfileValue option"
  L1DataWriteHit :: "ProfileValue option"
  L1InstrReadMiss :: "ProfileValue option"
  InstrTLBReadHit :: "ProfileValue option"
  InstrTLBReadMiss :: "ProfileValue option"
  LastLevelReadHit :: "ProfileValue option"
  LastLevelReadMiss :: "ProfileValue option"
  LastLevelWriteHit :: "ProfileValue option"
  LastLevelWriteMiss :: "ProfileValue option"
  BPUReadHit :: "ProfileValue option"
  BPUReadMiss :: "ProfileValue option"

type_synonym counters = "(string \<times> ProfileValue option) list"

definition hwCounters :: "HardwareProfile \<Rightarrow> counters" where
  "hwCounters hwProfile =
     [(''cpucycles_total'', CPUCycles hwProfile),
      (''instructions_total'', Instructions hwProfile),
      (''branch_instructions_total'', BranchInstr hwProfile),
      (''branch_misses_total'', BranchMisses hwProfile),
      (''cache_refs_total'', CacheRefs hwProfile),
      (''cache_misses_total'', CacheMisses hwProfile),
      (''ref_cpucycles_total'', RefCPUCycles hwProfile)]"

definition cacheCounters :: "CacheProfile \<Rightarrow> counters" where
  "cacheCounters cacheProfile =
     [(''cache_l1d_read_hits_total'', L1DataReadHit cacheProfile),
      (''cache_l1d_read_misses_total'', L1DataReadMiss cacheProfile),
      (''cache_l1d_write_hits_total'', L1DataWriteHit cacheProfile),
      (''cache_l1_instr_read_misses_total'', L1InstrReadMiss cacheProfile),
      (''cache_tlb_instr_read_hits_total'', InstrTLBReadHit cacheProfile),
      (''cache_tlb_instr_read_misses_total'', InstrTLBReadMiss cacheProfile),
      (''cache_ll_read_hits_total'', LastLevelReadHit cacheProfile),
      (''cache_ll_read_misses_total'', LastLevelReadMiss cacheProfile),
      (''cache_ll_write_hits_total'', LastLevelWriteHit cacheProfile),
      (''cache_ll_write_misses_total'', LastLevelWriteMiss cacheProfile),
      (''cache_bpu_read_hits_total'', BPUReadHit cacheProfile),
      (''cache_bpu_read_misses_total'', BPUReadMiss cacheProfile)]"

text \<open>
  A profiler is the handle of the \<open>perf_event\<close> descriptors opened for one process. The
  profiler tables are Go maps from PID to handle, here association lists with distinct
  keys in insertion order; a Go map is visited in an unspecified order, and every loop over
  these tables treats each entry on its own, so the order does not change the result.
  The snapshot tables are maps from PID to a map from metric name to value.
\<close>

type_synonym profiler = nat
type_synonym 'v pidTable = "int \<rightharpoonup> (string \<rightharpoonup> 'v)"

record perfCollector =
  perfHwProfilersEnabled :: bool
  perfSwProfilersEnabled :: bool
  perfCacheProfilersEnabled :: bool
  perfHwProfilers :: "(int \<times> profiler) list"
  perfSwProfilers :: "(int \<times> profiler) list"
  perfCacheProfilers :: "(int \<times> profiler) list"
  lastRawHwCounters :: "ProfileValue pidTable"
  lastRawCacheCounters :: "ProfileValue pidTable"
  lastScaledHwCounters :: "real pidTable"
  lastScaledCacheCounters :: "real pidTable"

text \<open>
  What the kernel answers during one scrape: opening a profiler for a PID (\<open>None\<close>: the
  open or the start failed), stopping and closing a profiler (\<open>True\<close>: both returned no
  error), and reading a profile (\<open>None\<close>: the read returned an error).
\<close>

record perfEnv =
  newHwProfiler :: "int \<Rightarrow> profiler option"
  newSwProfiler :: "int \<Rightarrow> profiler option"
  newCacheProfiler :: "int \<Rightarrow> profiler option"
  closeHwProfiler :: "profiler \<Rightarrow> bool"
  closeSwProfiler :: "profiler \<Rightarrow> bool"
  closeCacheProfiler :: "profiler \<Rightarrow> bool"
  readHwProfile :: "profiler \<Rightarrow> HardwareProfile option"
  readCacheProfile :: "profiler \<Rightarrow> CacheProfile option"

text \<open>
  Modelled from the spec: the declarations of \<open>procfs.Proc\<close> and of the \<open>cgroup\<close> struct
  are not among the repository's files. Of a process the collectors use its PID, its
  command line and its environment (each read from procfs, \<open>None\<close> when the read fails);
  the spec gives a cgroup as \<open>{id, path, uuid, procs}\<close>.
\<close>

record Proc =
  PID :: int
  CmdLine :: "string list option"
  Environ :: "string list option"

record cgroup =
  cgroup_id :: string
  cgroup_path :: string
  cgroup_uuid :: string
  cgroup_procs :: "Proc list"

subsection \<open>Aggregation of the counters of a cgroup\<close>


definition rawOf :: "ProfileValue pidTable \<Rightarrow> int \<Rightarrow> string \<Rightarrow> ProfileValue" where
  \<comment> \<open>\<open>table[pid][metricName]\<close>: the zero value when either key is missing\<close>
  "rawOf table pid metricName =
     (case table pid of None \<Rightarrow> zeroProfileValue
      | Some m \<Rightarrow> (case m metricName of None \<Rightarrow> zeroProfileValue | Some v \<Rightarrow> v))"

definition scaledOf :: "real pidTable \<Rightarrow> int \<Rightarrow> string \<Rightarrow> real" where
  "scaledOf table pid metricName =
     (case table pid of None \<Rightarrow> 0
      | Some m \<Rightarrow> (case m metricName of None \<Rightarrow> 0 | Some v \<Rightarrow> v))"







subsection \<open>Updating the counters of one cgroup\<close>

text \<open>
  The loop over \<open>procs\<close> of \<open>updateHardwareCounters\<close> and \<open>updateCacheCounters\<close>: it makes
  the inner maps of the snapshot tables for a PID that has none, and reads the profile of
  every PID that has a profiler. \<open>profiles[pid] = profile\<close> on a Go map replaces the entry
  of a PID met before.
\<close>

definition makeInner :: "int \<Rightarrow> 'v pidTable \<Rightarrow> 'v pidTable" where
  "makeInner pid table = (case table pid of None \<Rightarrow> table(pid \<mapsto> Map.empty) | Some m \<Rightarrow> table)"




definition emitted :: "(string \<rightharpoonup> real) \<Rightarrow> (string \<rightharpoonup> real)" where
  \<comment> \<open>the samples sent for the cgroup: one for every counter whose value is \<open>> 0\<close>\<close>
  "emitted counters =
     (\<lambda>metricName. case counters metricName of
                      None \<Rightarrow> None
                    | Some v \<Rightarrow> if v > 0 then Some v else None)"



subsection \<open>Opening and closing profilers\<close>

text \<open>
  One of the three blocks of \<open>openProfilers\<close> for a PID: when the kind is enabled and the
  table has no profiler for the PID, a profiler is opened; on error the table is unchanged.
\<close>

definition openProfiler ::
  "bool \<Rightarrow> (int \<Rightarrow> profiler option) \<Rightarrow> int \<Rightarrow> (int \<times> profiler) list \<Rightarrow> (int \<times> profiler) list" where
  "openProfiler enabled newProfiler pid profilers =
     (if enabled \<and> map_of profilers pid = None
      then (case newProfiler pid of None \<Rightarrow> profilers | Some p \<Rightarrow> profilers @ [(pid, p)])
      else profilers)"

definition openProfilersProc :: "perfEnv \<Rightarrow> int \<Rightarrow> perfCollector \<Rightarrow> perfCollector" where
  "openProfilersProc env pid d =
     d\<lparr>perfHwProfilers :=
         openProfiler (perfHwProfilersEnabled d) (newHwProfiler env) pid (perfHwProfilers d),
       perfSwProfilers :=
         openProfiler (perfSwProfilersEnabled d) (newSwProfiler env) pid (perfSwProfilers d),
       perfCacheProfilers :=
         openProfiler (perfCacheProfilersEnabled d) (newCacheProfiler env) pid (perfCacheProfilers d)\<rparr>"




subsection \<open>Readings and contributions of one update\<close>































definition example_cgroup :: "Proc list \<Rightarrow> cgroup" where
  "example_cgroup ps =
     \<lparr>cgroup_id = ''job_1481508'', cgroup_path = ''/slurm/uid_1000/job_1481508'',
      cgroup_uuid = ''1481508'', cgroup_procs = ps\<rparr>"



subsection \<open>The environment variable filter of the cgroups\<close>

text \<open>
  \<open>cgroupProcFilterer\<close> keeps the processes that have one of the target environment
  variables, and the cgroups that have such a process.
  \<^verbatim>\<open>
  for _, proc := range cgrp.procs {
      if procFilter != nil {
          procCmdLine, err := proc.CmdLine()
          if err != nil || len(procCmdLine) == 0 { continue }
          if procFilter(strings.Join(procCmdLine, " ")) { continue }
      }
      environ, err := proc.Environ()
      if err != nil { continue }
      for _, env := range environ {
          for _, targetEnvVar := range targetEnvVars {
              if strings.HasPrefix(env, targetEnvVar) { goto add_proc }
          }
      }
      continue
  add_proc:
      filteredProcs = append(filteredProcs, proc)
  }
  \<close>
\<close>

definition HasPrefix :: "string \<Rightarrow> string \<Rightarrow> bool" where
  "HasPrefix s prefix = (take (length prefix) s = prefix)"

fun Join :: "string list \<Rightarrow> string \<Rightarrow> string" where
  "Join [] sep = []"
| "Join [x] sep = x"
| "Join (x # y # ys) sep = x @ sep @ Join (y # ys) sep"

definition hasTargetEnvVar :: "string list \<Rightarrow> string list \<Rightarrow> bool" where
  "hasTargetEnvVar environ targetEnvVars =
     list_ex (\<lambda>env. list_ex (\<lambda>targetEnvVar. HasPrefix env targetEnvVar) targetEnvVars) environ"

fun filterProcsLoop :: "(string \<Rightarrow> bool) option \<Rightarrow> string list \<Rightarrow> Proc list \<Rightarrow> Proc list" where
  "filterProcsLoop procFilter targetEnvVars [] = []"
| "filterProcsLoop procFilter targetEnvVars (proc # rest) =
     (let ignored =
            (case procFilter of
               None \<Rightarrow> False
             | Some f \<Rightarrow>
                 (case CmdLine proc of
                    None \<Rightarrow> True
                  | Some procCmdLine \<Rightarrow> procCmdLine = [] \<or> f (Join procCmdLine '' '')))
      in if ignored then filterProcsLoop procFilter targetEnvVars rest
         else (case Environ proc of
                 None \<Rightarrow> filterProcsLoop procFilter targetEnvVars rest
               | Some environ \<Rightarrow>
                   if hasTargetEnvVar environ targetEnvVars
                   then proc # filterProcsLoop procFilter targetEnvVars rest
                   else filterProcsLoop procFilter targetEnvVars rest))"

fun filterCgroupsLoop :: "(string \<Rightarrow> bool) option \<Rightarrow> string list \<Rightarrow> cgroup list \<Rightarrow> cgroup list" where
  "filterCgroupsLoop procFilter targetEnvVars [] = []"
| "filterCgroupsLoop procFilter targetEnvVars (cgrp # rest) =
     (let filteredProcs = filterProcsLoop procFilter targetEnvVars (cgroup_procs cgrp)
      in if length filteredProcs > 0
         then cgrp\<lparr>cgroup_procs := filteredProcs\<rparr> # filterCgroupsLoop procFilter targetEnvVars rest
         else filterCgroupsLoop procFilter targetEnvVars rest)"

definition cgroupProcFilterer ::
  "cgroup list \<Rightarrow> string list \<Rightarrow> (string \<Rightarrow> bool) option \<Rightarrow> cgroup list" where
  "cgroupProcFilterer cgroups targetEnvVars procFilter =
     (if length targetEnvVars = 0 then cgroups
      else filterCgroupsLoop procFilter targetEnvVars cgroups)"

text \<open>
  The two conditions of the filter in the specification's words. A process passes the
  ignore check when no ignore predicate is configured, or its command line is read, is not
  empty and does not match the predicate. A process has a target variable when its
  environment is read and one of its entries starts with one of the targets.
\<close>

definition passesIgnoreCheck :: "(string \<Rightarrow> bool) option \<Rightarrow> Proc \<Rightarrow> bool" where
  "passesIgnoreCheck procFilter proc =
     (case procFilter of
        None \<Rightarrow> True
      | Some f \<Rightarrow> (\<exists>cmd. CmdLine proc = Some cmd \<and> cmd \<noteq> [] \<and> \<not> f (Join cmd '' '')))"

definition hasTarget :: "string list \<Rightarrow> Proc \<Rightarrow> bool" where
  "hasTarget targetEnvVars proc =
     (\<exists>environ. Environ proc = Some environ
        \<and> (\<exists>env\<in>set environ. \<exists>t\<in>set targetEnvVars. HasPrefix env t))"

definition example_ignoreProc :: "string \<Rightarrow> bool" where
  "example_ignoreProc cmd = HasPrefix cmd ''slurmstepd:''"

definition example_proc_env :: "int \<Rightarrow> string list \<Rightarrow> string list \<Rightarrow> Proc" where
  "example_proc_env pid cmd environ = \<lparr>PID = pid, CmdLine = Some cmd, Environ = Some environ\<rparr>"

section \<open>IPMI DCMI power collector\<close>

text \<open>
  The regular expressions of the collector, matched against one line of the tool's output:
  \<^verbatim>\<open>
  ^Power Measurement\s*:\s*(?P<value>Active|Not\sAvailable).*
  ^Current Power\s*:\s*(?P<value>[0-9.]*)\s*[w|W]atts.*
  ^Minimum Power over sampling duration\s*:\s*(?P<value>[0-9.]*)\s*[w|W]atts.*
  ^Maximum Power over sampling duration\s*:\s*(?P<value>[0-9.]*)\s*[w|W]atts.*
  \<close>
  Each is anchored at the start of the line and its parts are greedy. No part can take a
  character that the part after it needs (white space against the colon, against a letter
  and against a digit; digits and dots against white space and against \<open>[w|W]\<close>), so giving
  characters back never yields another match and each matcher reads the line from the left.
  The result is the text of the group \<open>value\<close>.
\<close>

definition isSpace :: "char \<Rightarrow> bool" where
  \<comment> \<open>\<open>\s\<close>: tab, line feed, form feed, carriage return and space\<close>
  "isSpace c = (of_char c \<in> {9, 10, 12, 13, 32 :: nat})"

definition isDigitOrDot :: "char \<Rightarrow> bool" where
  \<comment> \<open>\<open>[0-9.]\<close>\<close>
  "isDigitOrDot c = ((48 \<le> (of_char c :: nat) \<and> (of_char c :: nat) \<le> 57) \<or> c = CHR ''.'')"

definition stripPrefix :: "string \<Rightarrow> string \<Rightarrow> string option" where
  "stripPrefix prefix s = (if HasPrefix s prefix then Some (drop (length prefix) s) else None)"

definition matchLabel :: "string \<Rightarrow> string \<Rightarrow> string option" where
  \<comment> \<open>\<open>^label\s*:\s*\<close>: the text after it\<close>
  "matchLabel label line =
     (case stripPrefix label line of
        None \<Rightarrow> None
      | Some r \<Rightarrow>
          (case dropWhile isSpace r of
             [] \<Rightarrow> None
           | c # r' \<Rightarrow> if c = CHR '':'' then Some (dropWhile isSpace r') else None))"

definition ipmiDCMIPowerMeasurementRegex :: "string \<Rightarrow> string option" where
  "ipmiDCMIPowerMeasurementRegex line =
     (case matchLabel ''Power Measurement'' line of
        None \<Rightarrow> None
      | Some r \<Rightarrow>
          if HasPrefix r ''Active'' then Some ''Active''
          else (case stripPrefix ''Not'' r of
                  None \<Rightarrow> None
                | Some [] \<Rightarrow> None
                | Some (s # r') \<Rightarrow>
                    if isSpace s \<and> HasPrefix r' ''Available''
                    then Some (''Not'' @ [s] @ ''Available'') else None))"

definition powerReadingRegex :: "string \<Rightarrow> string \<Rightarrow> string option" where
  "powerReadingRegex label line =
     (case matchLabel label line of
        None \<Rightarrow> None
      | Some r \<Rightarrow>
          (case dropWhile isSpace (dropWhile isDigitOrDot r) of
             [] \<Rightarrow> None
           | c # r' \<Rightarrow>
               if (c = CHR ''w'' \<or> c = CHR ''|'' \<or> c = CHR ''W'') \<and> HasPrefix r' ''atts''
               then Some (takeWhile isDigitOrDot r) else None))"

text \<open>
  \<open>ipmiDCMIPowerReadingRegexMap\<close>: the reading types with their regular expressions. A Go
  map is visited in an unspecified order; the three entries are handled independently.
\<close>

definition ipmiDCMIPowerReadingRegexMap :: "(string \<times> (string \<Rightarrow> string option)) list" where
  "ipmiDCMIPowerReadingRegexMap =
     [(''current'', powerReadingRegex ''Current Power''),
      (''min'', powerReadingRegex ''Minimum Power over sampling duration''),
      (''max'', powerReadingRegex ''Maximum Power over sampling duration'')]"

text \<open>\<open>strings.Split(s, "\n")\<close>.\<close>

fun splitLines :: "string \<Rightarrow> string list" where
  "splitLines [] = [[]]"
| "splitLines (c # cs) =
     (if c = CHR 0x0A then [] # splitLines cs
      else (case splitLines cs of [] \<Rightarrow> [[c]] | l # ls \<Rightarrow> (c # l) # ls))"

datatype ipmiError = ExecFailed | ValueNotFound | NotActive

fun firstMatch :: "(string \<Rightarrow> string option) \<Rightarrow> string list \<Rightarrow> ipmiError + string" where
  "firstMatch regex [] = Inl ValueNotFound"
| "firstMatch regex (line # rest) =
     (case regex line of None \<Rightarrow> firstMatch regex rest | Some v \<Rightarrow> Inr v)"

definition getValue :: "string \<Rightarrow> (string \<Rightarrow> string option) \<Rightarrow> ipmiError + string" where
  "getValue ipmiOutput regex = firstMatch regex (splitLines ipmiOutput)"

text \<open>
  \<open>strconv.ParseFloat\<close> on a string of digits and dots: digits with at most one dot and at
  least one digit; anything else is an error. The value is the decimal number, a real in
  the model (the source rounds it to the nearest \<open>float64\<close>, and fails on a number too
  large for one).
\<close>

definition isDigit :: "char \<Rightarrow> bool" where
  "isDigit c = (48 \<le> (of_char c :: nat) \<and> (of_char c :: nat) \<le> 57)"

definition decimal :: "string \<Rightarrow> nat" where
  "decimal ds = foldl (\<lambda>acc d. 10 * acc + (of_char d - 48)) 0 ds"

definition ParseFloat :: "string \<Rightarrow> real option" where
  "ParseFloat s =
     (let ip = takeWhile isDigit s; rest = dropWhile isDigit s
      in case rest of
           [] \<Rightarrow> if ip = [] then None else Some (real (decimal ip))
         | c # fp \<Rightarrow>
             if c = CHR ''.'' \<and> list_all isDigit fp \<and> (ip \<noteq> [] \<or> fp \<noteq> [])
             then Some (real (decimal ip) + real (decimal fp) / 10 ^ length fp)
             else None)"

record impiCollector =
  execMode :: string
  cachedMetric :: "string \<rightharpoonup> real"

text \<open>
  The loop of \<open>parseIPMIOutput\<close> over the regular expressions: a reading is stored when its
  line is found and its value parses.
\<close>

fun readPower :: "string \<Rightarrow> (string \<times> (string \<Rightarrow> string option)) list \<Rightarrow> (string \<rightharpoonup> real) \<Rightarrow> (string \<rightharpoonup> real)" where
  "readPower stdOut [] powerReadings = powerReadings"
| "readPower stdOut ((rType, regex) # rest) powerReadings =
     (case getValue stdOut regex of
        Inl err \<Rightarrow> readPower stdOut rest powerReadings
      | Inr reading \<Rightarrow>
          (case ParseFloat reading of
             None \<Rightarrow> readPower stdOut rest powerReadings
           | Some readingValue \<Rightarrow> readPower stdOut rest (powerReadings(rType \<mapsto> readingValue))))"

definition parseIPMIOutput :: "string \<Rightarrow> ipmiError + (string \<rightharpoonup> real)" where
  "parseIPMIOutput stdOut =
     (case getValue stdOut ipmiDCMIPowerMeasurementRegex of
        Inl err \<Rightarrow> Inl err
      | Inr v \<Rightarrow>
          if v = ''Active'' then Inr (readPower stdOut ipmiDCMIPowerReadingRegexMap Map.empty)
          else Inl NotActive)"

text \<open>
  \<open>executeIPMICmd\<close>: the command is run in the mode found at start-up; with no mode it is
  an error. What the command prints, or that it fails, is the second argument.
\<close>

definition executeIPMICmd :: "impiCollector \<Rightarrow> ipmiError + string \<Rightarrow> ipmiError + string" where
  "executeIPMICmd c cmdResult =
     (if execMode c = ''cap'' \<or> execMode c = ''sudo'' \<or> execMode c = ''native''
      then cmdResult else Inl ExecFailed)"

definition getPowerReadings :: "impiCollector \<Rightarrow> ipmiError + string \<Rightarrow> ipmiError + (string \<rightharpoonup> real)" where
  "getPowerReadings c cmdResult =
     (case executeIPMICmd c cmdResult of
        Inl err \<Rightarrow> Inl err
      | Inr ipmiOutput \<Rightarrow> parseIPMIOutput ipmiOutput)"

text \<open>
  \<open>Update\<close>: on an error the cached readings stand in for the readings. Every reading
  \<open>> 0\<close> is sent as a sample of its type and stored in the cache. The result is the
  collector and the samples sent, by reading type.
  \<^verbatim>\<open>
  powerReadings, err := c.getPowerReadings()
  if err != nil { powerReadings = c.cachedMetric }
  for rType, rValue := range powerReadings {
      if rValue > 0 {
          ch <- prometheus.MustNewConstMetric(c.metricDesc[rType], prometheus.CounterValue, float64(rValue), c.hostname)
          c.cachedMetric[rType] = rValue
      }
  }
  \<close>
\<close>

definition Update :: "impiCollector \<Rightarrow> ipmiError + string \<Rightarrow> impiCollector \<times> (string \<rightharpoonup> real)" where
  "Update c cmdResult =
     (let powerReadings =
            (case getPowerReadings c cmdResult of
               Inl err \<Rightarrow> cachedMetric c
             | Inr readings \<Rightarrow> readings);
          samples = emitted powerReadings
      in (c\<lparr>cachedMetric := cachedMetric c ++ samples\<rparr>, samples))"

definition example_ipmi_active :: string where
  "example_ipmi_active =
     ''Current Power                        : 164 Watts'' @ [CHR 0x0A] @
     ''Minimum Power over sampling duration : 48 watts'' @ [CHR 0x0A] @
     ''Maximum Power over sampling duration : 361 watts'' @ [CHR 0x0A] @
     ''Power Measurement                    : Active'' @ [CHR 0x0A]"

definition example_ipmi_not_available :: string where
  "example_ipmi_not_available =
     ''Current Power                        : 0 Watts'' @ [CHR 0x0A] @
     ''Power Measurement                    : Not Available'' @ [CHR 0x0A]"

definition example_ipmi_collector :: "(string \<rightharpoonup> real) \<Rightarrow> impiCollector" where
  "example_ipmi_collector cache = \<lparr>execMode = ''native'', cachedMetric = cache\<rparr>"

section \<open>API server: the units endpoints\<close>

text \<open>
  A request carries the query parameters (\<open>url.Values\<close>, a map from a name to its values;
  a name that is absent has no values) and the two user headers. Times are nanoseconds
  since the Unix epoch and durations are nanoseconds, as \<open>time.Duration\<close> counts them.
\<close>

record Request =
  URLQuery :: "string \<Rightarrow> string list"
  loggedUserHeader :: string
  dashboardUserHeader :: string

text \<open>
  Modelled from the spec: the \<open>Query\<close> builder, \<open>models.Unit\<close>, \<open>errorResponse\<close> and the
  constants of package \<open>base\<close> are declared outside the repository's files. A query is kept
  as the sequence of the \<open>query\<close> and \<open>param\<close> calls made on it; a response is the decoded
  body: success with the units, or an error with its type and message.
\<close>

datatype queryCall = QuerySql string | QueryParam "string list"

type_synonym Query = "queryCall list"

record Unit =
  UUID :: string
  ClusterID :: string
  ResourceManager :: string
  User :: string

datatype errorType = errorBadData | errorInternal | errorForbidden

datatype apiResponse = Success "Unit list" | ErrorResponse errorType string

record CEEMSServer =
  maxQueryPeriod :: int
  Querier :: "Query \<Rightarrow> string + Unit list"
  UnitsDBTableColNames :: "string list"
  UnitsDBTableName :: string
  formatTime :: "int \<Rightarrow> string"

text \<open>What \<open>time.Now()\<close> returns at its two calls in \<open>getQueryWindow\<close>.\<close>

record clock =
  nowFrom :: int
  nowTo :: int

definition second :: int where
  "second = 1000000000"

definition defaultQueryWindow :: int where
  "defaultQueryWindow = 24 * 3600 * second"

definition getUser :: "Request \<Rightarrow> string \<times> string" where
  "getUser r = (loggedUserHeader r, dashboardUserHeader r)"

definition Get :: "(string \<Rightarrow> string list) \<Rightarrow> string \<Rightarrow> string" where
  \<comment> \<open>\<open>url.Values.Get\<close>: the first value, or the empty string\<close>
  "Get values key = (case values key of [] \<Rightarrow> [] | v # vs \<Rightarrow> v)"

definition getCommonQueryParams :: "Query \<Rightarrow> (string \<Rightarrow> string list) \<Rightarrow> Query" where
  "getCommonQueryParams q URLValues =
     (let q1 = (if length (URLValues ''project'') > 0
                then q @ [QuerySql '' AND project IN '', QueryParam (URLValues ''project'')]
                else q)
      in if URLValues ''running'' \<noteq> []
         then q1 @ [QuerySql '' OR ended_at_ts IN '', QueryParam [''0'']]
         else q1)"

definition getQueriedFields :: "(string \<Rightarrow> string list) \<Rightarrow> string list \<Rightarrow> string list" where
  "getQueriedFields URLValues validFieldNames =
     (if length (URLValues ''field'') > 0
      then filter (\<lambda>f. f \<in> set validFieldNames) (URLValues ''field'')
      else validFieldNames)"

text \<open>
  \<open>strconv.Atoi\<close>: an optional sign and at least one decimal digit, within the range of a
  64-bit \<open>int\<close>; anything else is an error.
\<close>

definition Atoi :: "string \<Rightarrow> int option" where
  "Atoi s =
     (let neg = (s \<noteq> [] \<and> hd s = CHR ''-'');
          ds = (if s \<noteq> [] \<and> (hd s = CHR ''-'' \<or> hd s = CHR ''+'') then tl s else s)
      in if ds = [] \<or> \<not> list_all isDigit ds then None
         else (let v = (if neg then - int (decimal ds) else int (decimal ds))
               in if - (2 ^ 63) \<le> v \<and> v < 2 ^ 63 then Some v else None))"

text \<open>
  \<open>time.Unix(sec, 0)\<close> keeps the seconds since year 1 in an \<open>int64\<close>, so the sum of
  \<open>sec\<close> and the offset of the Unix epoch wraps around. \<open>Time.Sub\<close> is the difference of
  two times as a duration, which saturates at the smallest and the largest \<open>int64\<close>.
\<close>

definition wrap64 :: "int \<Rightarrow> int" where
  "wrap64 x = (x + 2 ^ 63) mod 2 ^ 64 - 2 ^ 63"

definition unixToInternal :: int where
  "unixToInternal = 62135596800"

definition Unix :: "int \<Rightarrow> int" where
  "Unix sec = (wrap64 (sec + unixToInternal) - unixToInternal) * second"

definition Sub :: "int \<Rightarrow> int \<Rightarrow> int" where
  "Sub t u = max (- (2 ^ 63)) (min (2 ^ 63 - 1) (t - u))"

definition getQueryWindow :: "CEEMSServer \<Rightarrow> clock \<Rightarrow> Request \<Rightarrow> string + (string \<times> string)" where
  "getQueryWindow s clk r =
     (let f = Get (URLQuery r) ''from''; t = Get (URLQuery r) ''to''
      in case (if f = [] then Some (nowFrom clk - defaultQueryWindow)
               else map_option Unix (Atoi f)) of
           None \<Rightarrow> Inl ''malformed 'from' timestamp''
         | Some fromTime \<Rightarrow>
             (case (if t = [] then Some (nowTo clk) else map_option Unix (Atoi t)) of
                None \<Rightarrow> Inl ''malformed 'to' timestamp''
              | Some toTime \<Rightarrow>
                  if maxQueryPeriod s > 0 \<and> Sub toTime fromTime > maxQueryPeriod s
                  then Inl ''maximum query window exceeded''
                  else Inr (formatTime s fromTime, formatTime s toTime)))"

definition queryUnits :: "CEEMSServer \<Rightarrow> Query \<Rightarrow> apiResponse" where
  \<comment> \<open>the code after the label \<open>queryUnits\<close>\<close>
  "queryUnits s q =
     (case Querier s q of
        Inl err \<Rightarrow> ErrorResponse errorInternal err
      | Inr units \<Rightarrow> Success units)"

definition unitsQuerier :: "CEEMSServer \<Rightarrow> clock \<Rightarrow> string list \<Rightarrow> Request \<Rightarrow> apiResponse" where
  "unitsQuerier s clk queriedUsers r =
     (let queriedFields = getQueriedFields (URLQuery r) (UnitsDBTableColNames s);
          q0 = [QuerySql (''SELECT '' @ Join queriedFields '','' @ '' FROM '' @ UnitsDBTableName s),
                QuerySql '' WHERE ignore = 0 ''];
          q1 = (if length queriedUsers > 0
                then q0 @ [QuerySql '' AND usr IN '', QueryParam queriedUsers] else q0);
          q2 = getCommonQueryParams q1 (URLQuery r);
          uuids = URLQuery r ''uuid'';
          checkQueryWindow = \<not> (length uuids > 0);
          q3 = (if length uuids > 0 then q2 @ [QuerySql '' AND uuid IN '', QueryParam uuids] else q2)
      in if \<not> checkQueryWindow then queryUnits s q3
         else (case getQueryWindow s clk r of
                 Inl err \<Rightarrow> ErrorResponse errorBadData err
               | Inr (fromTS, toTS) \<Rightarrow>
                   queryUnits s
                     (q3 @ [QuerySql '' AND ended_at BETWEEN '', QueryParam [fromTS],
                            QuerySql '' AND '', QueryParam [toTS]])))"

definition unitsAdmin :: "CEEMSServer \<Rightarrow> clock \<Rightarrow> Request \<Rightarrow> apiResponse" where
  "unitsAdmin s clk r = unitsQuerier s clk (URLQuery r ''user'') r"

definition units :: "CEEMSServer \<Rightarrow> clock \<Rightarrow> Request \<Rightarrow> apiResponse" where
  "units s clk r = unitsQuerier s clk [snd (getUser r)] r"

text \<open>The query that \<open>units\<close> runs for a request with \<open>uuid\<close> parameters.\<close>

definition unitsUuidQuery :: "CEEMSServer \<Rightarrow> Request \<Rightarrow> Query" where
  "unitsUuidQuery s r =
     getCommonQueryParams
       [QuerySql (''SELECT '' @ Join (getQueriedFields (URLQuery r) (UnitsDBTableColNames s)) '',''
                  @ '' FROM '' @ UnitsDBTableName s),
        QuerySql '' WHERE ignore = 0 '',
        QuerySql '' AND usr IN '', QueryParam [dashboardUserHeader r]]
       (URLQuery r)
     @ [QuerySql '' AND uuid IN '', QueryParam (URLQuery r ''uuid'')]"

definition mockServerUnits :: "Unit list" where
  "mockServerUnits =
     [\<lparr>UUID = ''1000'', ClusterID = ''slurm-0'', ResourceManager = ''slurm'', User = ''foousr''\<rparr>,
      \<lparr>UUID = ''10001'', ClusterID = ''os-0'', ResourceManager = ''openstack'', User = ''barusr''\<rparr>]"

definition example_server :: CEEMSServer where
  "example_server =
     \<lparr>maxQueryPeriod = 168 * 3600 * second, Querier = (\<lambda>q. Inr mockServerUnits),
      UnitsDBTableColNames = [''uuid'', ''usr'', ''project''], UnitsDBTableName = ''units'',
      formatTime = (\<lambda>t. [])\<rparr>"

definition example_request :: "string list \<Rightarrow> Request" where
  "example_request uuids =
     \<lparr>URLQuery = (\<lambda>k. if k = ''from'' then [''1672527600'']
                      else if k = ''to'' then [''1685570400'']
                      else if k = ''uuid'' then uuids else []),
      loggedUserHeader = ''foo'', dashboardUserHeader = ''foo''\<rparr>"

section \<open>API server: ownership verification\<close>

text \<open>
  Modelled from the spec: \<open>VerifyOwnership\<close> and \<open>errorResponse\<close> are not among the
  repository's files; the handler that calls them is. The spec: the ownership check of a
  user and a list of UUIDs passes if, for every UUID, the user is the direct owner of the
  unit or shares a project or account with it; one failing UUID fails the request; the
  endpoint returns 200 when the check passes and 403 otherwise. The database is what
  answers the two questions.
\<close>

record ownershipDB =
  owns :: "string \<Rightarrow> string \<Rightarrow> bool"
  sharesProject :: "string \<Rightarrow> string \<Rightarrow> bool"

definition VerifyOwnership :: "string \<Rightarrow> string list \<Rightarrow> ownershipDB \<Rightarrow> bool" where
  "VerifyOwnership user uuids db =
     list_all (\<lambda>uuid. owns db user uuid \<or> sharesProject db user uuid) uuids"

datatype verifyBody = Ownership string "string list" bool | VerifyError errorType string

definition statusOf :: "errorType \<Rightarrow> nat" where
  "statusOf e = (case e of errorBadData \<Rightarrow> 400 | errorInternal \<Rightarrow> 500 | errorForbidden \<Rightarrow> 403)"

text \<open>
  The handler of \<open>GET /units/verify\<close>:
  \<^verbatim>\<open>
  _, dashboardUser := s.getUser(r)
  uuids := r.URL.Query()["uuid"]
  if VerifyOwnership(dashboardUser, uuids, s.db, s.logger) {
      w.WriteHeader(http.StatusOK)
      ... Data: []models.Ownership{{User: dashboardUser, UUIDS: uuids, Owner: true}}
  } else {
      errorResponse[any](w, &apiError{errorForbidden, fmt.Errorf("user do not have permissions on uuids")}, ...)
  }
  \<close>
  The result is the status code and the body.
\<close>

definition verifyUnitsOwnership :: "ownershipDB \<Rightarrow> Request \<Rightarrow> nat \<times> verifyBody" where
  "verifyUnitsOwnership db r =
     (let dashboardUser = snd (getUser r);
          uuids = URLQuery r ''uuid''
      in if VerifyOwnership dashboardUser uuids db
         then (200, Ownership dashboardUser uuids True)
         else (statusOf errorForbidden,
               VerifyError errorForbidden ''user do not have permissions on uuids''))"

definition example_ownershipDB :: ownershipDB where
  "example_ownershipDB =
     \<lparr>owns = (\<lambda>user uuid. user = ''usr1'' \<and> uuid = ''X''),
      sharesProject = (\<lambda>user uuid. user = ''usr1'' \<and> uuid = ''Z'')\<rparr>"

definition example_verify_request :: "string list \<Rightarrow> Request" where
  "example_verify_request uuids =
     \<lparr>URLQuery = (\<lambda>k. if k = ''uuid'' then uuids else []),
      loggedUserHeader = ''usr1'', dashboardUserHeader = ''usr1''\<rparr>"

section \<open>Load balancer: the retention period of a backend\<close>

text \<open>
  Modelled from the spec: the backend of the load balancer is not among the repository's
  files; its tests are. The spec: a backend is \<open>{url, alive, active_connections,
  retention_period}\<close>; its status endpoint yields the retention either as a duration
  (\<open>30d\<close>) or as a combined string (\<open>30d or 10GiB\<close>), of which only the duration
  component is used; the cache keeps the last parsed value, and a failed refresh never
  clears it. Durations are nanoseconds; \<open>30d\<close> is 720 hours.
\<close>

record Backend =
  url :: string
  alive :: bool
  active_connections :: nat
  retention_period :: int

definition durationUnit :: "string \<Rightarrow> int option" where
  "durationUnit u =
     (if u = ''s'' then Some second
      else if u = ''m'' then Some (60 * second)
      else if u = ''h'' then Some (3600 * second)
      else if u = ''d'' then Some (24 * 3600 * second)
      else None)"

definition parseDuration :: "string \<Rightarrow> int option" where
  "parseDuration s =
     (let ds = takeWhile isDigit s
      in if ds = [] then None
         else map_option (\<lambda>u. int (decimal ds) * u) (durationUnit (dropWhile isDigit s)))"

definition durationComponent :: "string \<Rightarrow> string" where
  \<comment> \<open>the text before the first space: \<open>30d\<close> of \<open>30d or 10GiB\<close>\<close>
  "durationComponent s = takeWhile (\<lambda>c. c \<noteq> CHR '' '') s"

definition parseRetention :: "string \<Rightarrow> int option" where
  "parseRetention s = parseDuration (durationComponent s)"

text \<open>
  A refresh: the status endpoint answers with a retention string, or the request fails
  (\<open>None\<close>). A parsed duration replaces the cached value; anything else leaves it.
\<close>

definition refreshRetention :: "Backend \<Rightarrow> string option \<Rightarrow> Backend" where
  "refreshRetention b response =
     (case response of
        None \<Rightarrow> b
      | Some s \<Rightarrow>
          (case parseRetention s of
             None \<Rightarrow> b
           | Some d \<Rightarrow> b\<lparr>retention_period := d\<rparr>))"

definition RetentionPeriod :: "Backend \<Rightarrow> int" where
  "RetentionPeriod b = retention_period b"

definition New :: "string \<Rightarrow> string option \<Rightarrow> Backend" where
  \<comment> \<open>a new backend asks its status endpoint once\<close>
  "New u response =
     refreshRetention \<lparr>url = u, alive = True, active_connections = 0, retention_period = 0\<rparr> response"

text \<open>The duration of the last response of a sequence that parsed, if any did.\<close>

fun lastParsed :: "string option list \<Rightarrow> int option" where
  "lastParsed [] = None"
| "lastParsed (response # rest) =
     (case lastParsed rest of
        Some d \<Rightarrow> Some d
      | None \<Rightarrow> (case response of None \<Rightarrow> None | Some s \<Rightarrow> parseRetention s))"

section \<open>Properties of the sanitisation\<close>

lemma isMetricChar_underscore [simp]: "isMetricChar CHR ''_''"
  by (simp add: isMetricChar_def)

lemma takeWhile_not_all:
  "\<forall>c\<in>set xs. P c \<Longrightarrow> takeWhile (\<lambda>c. \<not> P c) xs = []"
  by (cases xs) auto

lemma metricNameRegex_match_valid:
  assumes "\<forall>c\<in>set s. isMetricChar c"
  shows "metricNameRegex_match s = None"
proof -
  have "\<forall>c\<in>set (dropWhile isUnderscore s). isMetricChar c"
    using assms by (meson set_dropWhileD)
  then have "takeWhile (\<lambda>c. \<not> isMetricChar c) (dropWhile isUnderscore s) = []"
    by (rule takeWhile_not_all)
  then show ?thesis by (simp add: metricNameRegex_match_def Let_def)
qed

lemma ReplaceAllString_valid:
  "\<forall>c\<in>set s. isMetricChar c \<Longrightarrow> ReplaceAllString s = s"
proof (induction s)
  case Nil
  then show ?case by simp
next
  case (Cons c cs)
  have "metricNameRegex_match (c # cs) = None"
    using Cons.prems by (rule metricNameRegex_match_valid)
  with Cons show ?case by simp
qed

lemma ReplaceAllString_all_valid:
  "\<forall>c\<in>set (ReplaceAllString s). isMetricChar c"
proof (induction s rule: ReplaceAllString.induct)
  case 1
  then show ?case by simp
next
  case (2 c cs)
  show ?case
  proof (cases "metricNameRegex_match (c # cs)")
    case None
    then have "takeWhile (\<lambda>c. \<not> isMetricChar c) (dropWhile isUnderscore (c # cs)) = []"
      by (auto simp: metricNameRegex_match_def Let_def split: if_splits)
    then have "isMetricChar c"
      by (cases "isUnderscore c") (auto simp: isUnderscore_def split: if_splits)
    with None 2 show ?thesis by simp
  next
    case (Some rest)
    with 2 show ?thesis by simp
  qed
qed

text \<open>
  Claim C9. Sanitising a metric name twice gives the same string as sanitising it once.
\<close>

theorem SanitizeMetricName_idempotent:
  "SanitizeMetricName (SanitizeMetricName x) = SanitizeMetricName x"
  unfolding SanitizeMetricName_def
  by (rule ReplaceAllString_valid) (rule ReplaceAllString_all_valid)

lemma metricNameRegex_match_run:
  assumes us: "\<forall>c\<in>set us. c = CHR ''_''"
    and bad: "bad \<noteq> []" "\<forall>c\<in>set bad. \<not> isMetricChar c"
    and us': "\<forall>c\<in>set us'. c = CHR ''_''"
    and rest: "rest = [] \<or> (hd rest \<noteq> CHR ''_'' \<and> (us' = [] \<longrightarrow> isMetricChar (hd rest)))"
  shows "metricNameRegex_match (us @ bad @ us' @ rest) = Some rest"
proof -
  obtain b bs where b: "bad = b # bs" using bad(1) by (cases bad) auto
  have nb: "\<not> isMetricChar b" using bad(2) b by simp
  then have bu: "\<not> isUnderscore b" by (auto simp: isUnderscore_def)
  have r1: "dropWhile isUnderscore (us @ bad @ us' @ rest) = bad @ us' @ rest"
    using us bu by (simp add: isUnderscore_def b)
  have tk: "takeWhile (\<lambda>c. \<not> isMetricChar c) (bad @ us' @ rest) \<noteq> []"
    using nb by (simp add: b)
  have dr_rest: "dropWhile isUnderscore rest = rest"
    using rest by (cases rest) (auto simp: isUnderscore_def)
  have r2: "dropWhile isUnderscore (dropWhile (\<lambda>c. \<not> isMetricChar c) (bad @ us' @ rest)) = rest"
  proof (cases us')
    case Nil
    have "dropWhile (\<lambda>c. \<not> isMetricChar c) rest = rest"
      using rest Nil by (cases rest) auto
    then show ?thesis using bad(2) Nil dr_rest by simp
  next
    case (Cons u us'')
    then have "u = CHR ''_''" using us' by simp
    then have "dropWhile (\<lambda>c. \<not> isMetricChar c) (us' @ rest) = us' @ rest"
      using Cons by simp
    then have "dropWhile (\<lambda>c. \<not> isMetricChar c) (bad @ us' @ rest) = us' @ rest"
      using bad(2) by simp
    moreover have "dropWhile isUnderscore (us' @ rest) = rest"
      using us' dr_rest by (simp add: isUnderscore_def)
    ultimately show ?thesis by simp
  qed
  show ?thesis
    unfolding metricNameRegex_match_def Let_def r1 using tk r2 by simp
qed

lemma metricNameRegex_match_keep:
  assumes "isMetricChar c" "\<forall>x\<in>set k. isMetricChar x" "c # k = [] \<or> last (c # k) \<noteq> CHR ''_''"
  shows "metricNameRegex_match (c # k @ t) = None"
proof -
  let ?keep = "c # k"
  have ex: "\<exists>x\<in>set ?keep. \<not> isUnderscore x"
    using assms(3) last_in_set [of "c # k"] by (auto simp: isUnderscore_def simp del: last.simps)
  then obtain x where x: "x \<in> set ?keep" "\<not> isUnderscore x" by blast
  have d: "dropWhile isUnderscore (?keep @ t) = dropWhile isUnderscore ?keep @ t"
    using x by (rule dropWhile_append1)
  have ne: "dropWhile isUnderscore ?keep \<noteq> []"
    using ex by (simp only: dropWhile_eq_Nil_conv) blast
  then obtain y ys where y: "dropWhile isUnderscore ?keep = y # ys"
    by (cases "dropWhile isUnderscore ?keep") auto
  have "y \<in> set ?keep" by (metis y list.set_intros(1) set_dropWhileD)
  then have "isMetricChar y" using assms(1,2) by auto
  then have "takeWhile (\<lambda>c. \<not> isMetricChar c) (dropWhile isUnderscore (?keep @ t)) = []"
    unfolding d y by simp
  then show ?thesis
    unfolding metricNameRegex_match_def Let_def by (simp del: dropWhile.simps)
qed

lemma ReplaceAllString_keep:
  assumes "\<forall>c\<in>set keep. isMetricChar c" "keep = [] \<or> last keep \<noteq> CHR ''_''"
  shows "ReplaceAllString (keep @ t) = keep @ ReplaceAllString t"
  using assms
proof (induction keep)
  case Nil
  then show ?case by simp
next
  case (Cons c k)
  have m: "metricNameRegex_match (c # k @ t) = None"
    using Cons.prems by (intro metricNameRegex_match_keep) auto
  have "k = [] \<or> last k \<noteq> CHR ''_''" using Cons.prems(2) by (cases k) auto
  with Cons have "ReplaceAllString (k @ t) = k @ ReplaceAllString t" by simp
  with m show ?case by simp
qed

text \<open>
  Claim C8 (amended). The regexp also takes the underscores next to a run of characters
  outside \<open>[A-Za-z0-9_]\<close>: such a run, together with the underscores directly before and
  after it, is replaced with exactly one underscore. The text \<open>keep\<close> before it, made of
  characters of the class and not ending in an underscore, is copied unchanged, and the
  scan goes on after the match. Every string \<open>s\<close> made only of characters of the class,
  whatever its last character, is returned unchanged.
\<close>

theorem SanitizeMetricName_runs:
  "((\<forall>c\<in>set keep. isMetricChar c) \<and> (keep = [] \<or> last keep \<noteq> CHR ''_'')
     \<and> (\<forall>c\<in>set us. c = CHR ''_'')
     \<and> bad \<noteq> [] \<and> (\<forall>c\<in>set bad. \<not> isMetricChar c)
     \<and> (\<forall>c\<in>set us'. c = CHR ''_'')
     \<and> (rest = [] \<or> (hd rest \<noteq> CHR ''_'' \<and> (us' = [] \<longrightarrow> isMetricChar (hd rest))))
     \<longrightarrow> SanitizeMetricName (keep @ us @ bad @ us' @ rest)
           = keep @ CHR ''_'' # SanitizeMetricName rest)
   \<and> ((\<forall>c\<in>set s. isMetricChar c) \<longrightarrow> SanitizeMetricName s = s)"
proof (intro conjI impI)
  assume a: "(\<forall>c\<in>set keep. isMetricChar c) \<and> (keep = [] \<or> last keep \<noteq> CHR ''_'')
     \<and> (\<forall>c\<in>set us. c = CHR ''_'')
     \<and> bad \<noteq> [] \<and> (\<forall>c\<in>set bad. \<not> isMetricChar c)
     \<and> (\<forall>c\<in>set us'. c = CHR ''_'')
     \<and> (rest = [] \<or> (hd rest \<noteq> CHR ''_'' \<and> (us' = [] \<longrightarrow> isMetricChar (hd rest))))"
  then have keep: "\<forall>c\<in>set keep. isMetricChar c" "keep = [] \<or> last keep \<noteq> CHR ''_''"
    and us: "\<forall>c\<in>set us. c = CHR ''_''"
    and bad: "bad \<noteq> []" "\<forall>c\<in>set bad. \<not> isMetricChar c"
    and us': "\<forall>c\<in>set us'. c = CHR ''_''"
    and rest: "rest = [] \<or> (hd rest \<noteq> CHR ''_'' \<and> (us' = [] \<longrightarrow> isMetricChar (hd rest)))"
    by simp_all
  have m: "metricNameRegex_match (us @ bad @ us' @ rest) = Some rest"
    using us bad us' rest by (rule metricNameRegex_match_run)
  obtain c cs where c: "us @ bad @ us' @ rest = c # cs"
    using bad(1) by (cases "us @ bad @ us' @ rest") auto
  have "ReplaceAllString (us @ bad @ us' @ rest) = CHR ''_'' # ReplaceAllString rest"
    using m unfolding c by simp
  moreover have "ReplaceAllString (keep @ us @ bad @ us' @ rest)
      = keep @ ReplaceAllString (us @ bad @ us' @ rest)"
    using keep by (rule ReplaceAllString_keep)
  ultimately show "SanitizeMetricName (keep @ us @ bad @ us' @ rest)
      = keep @ CHR ''_'' # SanitizeMetricName rest"
    by (simp add: SanitizeMetricName_def)
next
  assume "\<forall>c\<in>set s. isMetricChar c"
  then have "ReplaceAllString s = s" by (rule ReplaceAllString_valid)
  then show "SanitizeMetricName s = s" by (simp add: SanitizeMetricName_def)
qed

theorem SanitizeMetricName_runs_witness:
  "SanitizeMetricName ''cpu__:-_time'' = ''cpu_time''
   \<and> SanitizeMetricName ''cpu_'' = ''cpu_''
   \<and> SanitizeMetricName ''_cpu_time_'' = ''_cpu_time_''"
proof -
  have t: "SanitizeMetricName ''time'' = ''time''"
    using SanitizeMetricName_runs [where s = "''time''", THEN conjunct2]
    by (simp add: isMetricChar_def)
  have 1: "SanitizeMetricName ''cpu__:-_time'' = ''cpu_time''"
    using SanitizeMetricName_runs [of "''cpu''" "''__''" "'':-''" "''_''" "''time''", THEN conjunct1]
    by (simp add: isMetricChar_def t)
  have 2: "SanitizeMetricName ''cpu_'' = ''cpu_''"
    using SanitizeMetricName_runs [where s = "''cpu_''", THEN conjunct2]
    by (simp add: isMetricChar_def)
  have 3: "SanitizeMetricName ''_cpu_time_'' = ''_cpu_time_''"
    using SanitizeMetricName_runs [where s = "''_cpu_time_''", THEN conjunct2]
    by (simp add: isMetricChar_def)
  from 1 2 3 show ?thesis by simp
qed

text \<open>
  Claim C8 as stated fails: in \<open>a_:b\<close> the underscore is inside the class, yet it is
  not kept; it is merged with the colon into one underscore, where the specification's
  wording yields two.
\<close>

theorem SanitizeMetricName_underscore_counterexample:
  "SanitizeMetricName ''a_:b'' = ''a_b'' \<and> spec_collapse_runs ''a_:b'' = ''a__b''"
  by (simp add: SanitizeMetricName_def metricNameRegex_match_def isMetricChar_def isUnderscore_def)

section \<open>Properties of the perf counter collector\<close>

subsection \<open>The state after the aggregation\<close>









subsection \<open>The tables around the aggregation\<close>

lemma makeInner_apply:
  "makeInner pid table p = (if p = pid \<and> table p = None then Some Map.empty else table p)"
  by (auto simp: makeInner_def split: option.splits)

lemma fold_makeInner_apply:
  "fold makeInner pids table p =
     (if p \<in> set pids \<and> table p = None then Some Map.empty else table p)"
  by (induction pids arbitrary: table) (auto simp: makeInner_apply)


lemma rawOf_fold_makeInner [simp]:
  "rawOf (fold makeInner pids table) p m = rawOf table p m"
  by (simp add: rawOf_def fold_makeInner_apply)

lemma scaledOf_fold_makeInner [simp]:
  "scaledOf (fold makeInner pids table) p m = scaledOf table p m"
  by (simp add: scaledOf_def fold_makeInner_apply)












subsection \<open>One update of the hardware counters of a cgroup\<close>

lemma distinct_hwCounters [simp]: "distinct (map fst (hwCounters p))"
  by (simp add: hwCounters_def)


lemma distinct_cacheCounters [simp]: "distinct (map fst (cacheCounters p))"
  by (simp add: cacheCounters_def)




subsection \<open>Counter scaling and the running sum\<close>























subsection \<open>The samples of consecutive scrapes\<close>







subsection \<open>The profiler tables after a scrape\<close>

lemma openProfilersProc_flags [simp]:
  "perfHwProfilersEnabled (openProfilersProc env pid d) = perfHwProfilersEnabled d"
  "perfSwProfilersEnabled (openProfilersProc env pid d) = perfSwProfilersEnabled d"
  "perfCacheProfilersEnabled (openProfilersProc env pid d) = perfCacheProfilersEnabled d"
  by (simp_all add: openProfilersProc_def)


lemma openProfiler_entries:
  "set (openProfiler True new pid profilers) =
     set profilers \<union> (if pid \<notin> fst ` set profilers
                        then (case new pid of None \<Rightarrow> {} | Some p \<Rightarrow> {(pid, p)}) else {})"
  by (auto simp: openProfiler_def map_of_eq_None_iff split: option.splits)



lemma fold_openProfiler_keeps:
  "set profilers \<subseteq> set (fold (openProfiler True new) pids profilers)"
proof (induction pids arbitrary: profilers)
  case Nil
  then show ?case by simp
next
  case (Cons pid pids)
  have "set profilers \<subseteq> set (openProfiler True new pid profilers)"
    unfolding openProfiler_entries by auto
  then show ?case using Cons.IH [of "openProfiler True new pid profilers"] by auto
qed








subsection \<open>The environment variable filter\<close>

lemma filterProcsLoop_filter:
  "filterProcsLoop procFilter targetEnvVars ps =
     filter (\<lambda>p. passesIgnoreCheck procFilter p \<and> hasTarget targetEnvVars p) ps"
proof (induction ps)
  case Nil
  then show ?case by simp
next
  case (Cons proc rest)
  show ?case
    unfolding filterProcsLoop.simps Cons.IH Let_def
    by (auto simp: passesIgnoreCheck_def hasTarget_def hasTargetEnvVar_def list_ex_iff
        split: option.splits)
qed

lemma filterCgroupsLoop_filter:
  "filterCgroupsLoop procFilter targetEnvVars cgroups =
     map (\<lambda>cg. cg\<lparr>cgroup_procs :=
                   filter (\<lambda>p. passesIgnoreCheck procFilter p \<and> hasTarget targetEnvVars p)
                     (cgroup_procs cg)\<rparr>)
       (filter (\<lambda>cg. \<exists>p\<in>set (cgroup_procs cg).
                  passesIgnoreCheck procFilter p \<and> hasTarget targetEnvVars p) cgroups)"
proof (induction cgroups)
  case Nil
  then show ?case by simp
next
  case (Cons cgrp rest)
  have "(length (filter (\<lambda>p. passesIgnoreCheck procFilter p \<and> hasTarget targetEnvVars p)
            (cgroup_procs cgrp)) > 0)
      = (\<exists>p\<in>set (cgroup_procs cgrp). passesIgnoreCheck procFilter p \<and> hasTarget targetEnvVars p)"
    by (simp add: filter_empty_conv)
  then show ?case
    unfolding filterCgroupsLoop.simps Cons.IH filterProcsLoop_filter Let_def by simp
qed

text \<open>
  Claim C5 (amended). With a non-empty target list, the filter keeps a cgroup if and only if
  at least one of its processes passes the ignore check and has a target variable; the
  kept cgroups stay in order and each keeps exactly those of its processes. No process
  whose command line matches the ignore predicate is among them.
\<close>

theorem cgroupProcFilterer_keeps:
  assumes "targetEnvVars \<noteq> []"
  shows "cgroupProcFilterer cgroups targetEnvVars procFilter =
      map (\<lambda>cg. cg\<lparr>cgroup_procs :=
                    filter (\<lambda>p. passesIgnoreCheck procFilter p \<and> hasTarget targetEnvVars p)
                      (cgroup_procs cg)\<rparr>)
        (filter (\<lambda>cg. \<exists>p\<in>set (cgroup_procs cg).
                   passesIgnoreCheck procFilter p \<and> hasTarget targetEnvVars p) cgroups)
    \<and> (\<forall>cg\<in>set (cgroupProcFilterer cgroups targetEnvVars procFilter).
          \<forall>p\<in>set (cgroup_procs cg). \<forall>f cmd.
            procFilter = Some f \<and> CmdLine p = Some cmd \<longrightarrow> \<not> f (Join cmd '' ''))"
proof -
  have eq: "cgroupProcFilterer cgroups targetEnvVars procFilter =
      map (\<lambda>cg. cg\<lparr>cgroup_procs :=
                    filter (\<lambda>p. passesIgnoreCheck procFilter p \<and> hasTarget targetEnvVars p)
                      (cgroup_procs cg)\<rparr>)
        (filter (\<lambda>cg. \<exists>p\<in>set (cgroup_procs cg).
                   passesIgnoreCheck procFilter p \<and> hasTarget targetEnvVars p) cgroups)"
    using assms by (simp add: cgroupProcFilterer_def filterCgroupsLoop_filter)
  have "\<not> f (Join cmd '' '')"
    if "cg \<in> set (cgroupProcFilterer cgroups targetEnvVars procFilter)"
      "p \<in> set (cgroup_procs cg)" "procFilter = Some f" "CmdLine p = Some cmd" for cg p f cmd
  proof -
    from that(1,2) have "passesIgnoreCheck procFilter p" unfolding eq by auto
    with that(3,4) show ?thesis by (simp add: passesIgnoreCheck_def)
  qed
  with eq show ?thesis by blast
qed

theorem cgroupProcFilterer_keeps_witness:
  "cgroupProcFilterer
     [example_cgroup [example_proc_env 42 [''python'', ''train.py''] [''HOME=/root'', ''ENABLE_PROFILING=1''],
                      example_proc_env 43 [''sleep'', ''10''] [''HOME=/root'']],
      example_cgroup [example_proc_env 44 [''sleep'', ''10''] [''HOME=/root'']]]
     [''ENABLE_PROFILING''] (Some example_ignoreProc)
   = [example_cgroup [example_proc_env 42 [''python'', ''train.py''] [''HOME=/root'', ''ENABLE_PROFILING=1'']]]"
proof -
  note t = cgroupProcFilterer_keeps [of "[''ENABLE_PROFILING'']"
      "[example_cgroup [example_proc_env 42 [''python'', ''train.py''] [''HOME=/root'', ''ENABLE_PROFILING=1''],
                      example_proc_env 43 [''sleep'', ''10''] [''HOME=/root'']],
      example_cgroup [example_proc_env 44 [''sleep'', ''10''] [''HOME=/root'']]]"
      "Some example_ignoreProc", THEN conjunct1]
  show ?thesis
    by (subst t)
      (simp_all add: passesIgnoreCheck_def hasTarget_def example_cgroup_def example_proc_env_def
        example_ignoreProc_def HasPrefix_def)
qed

text \<open>
  Claim C5 as stated fails. A cgroup whose only process carries the target variable is
  dropped when that process matches the ignore predicate, and also when its command line
  is empty, which does not match the predicate.
\<close>

theorem cgroupProcFilterer_ignored_counterexample:
  "cgroupProcFilterer
     [example_cgroup [example_proc_env 42 [''slurmstepd:'', ''[1481508.batch]''] [''ENABLE_PROFILING=1'']]]
     [''ENABLE_PROFILING''] (Some example_ignoreProc) = []
   \<and> cgroupProcFilterer
     [example_cgroup [example_proc_env 42 [] [''ENABLE_PROFILING=1'']]]
     [''ENABLE_PROFILING''] (Some example_ignoreProc) = []
   \<and> \<not> example_ignoreProc (Join [] '' '')
   \<and> HasPrefix ''ENABLE_PROFILING=1'' ''ENABLE_PROFILING''"
  by (simp add: cgroupProcFilterer_def example_cgroup_def example_proc_env_def
      example_ignoreProc_def HasPrefix_def hasTargetEnvVar_def)

section \<open>Properties of the power collector\<close>

lemma map_add_emitted [simp]: "m ++ emitted m = m"
  by (rule ext) (auto simp: map_add_def emitted_def split: option.splits)

lemma emitted_empty [simp]: "emitted Map.empty = Map.empty"
  by (simp add: emitted_def)

text \<open>
  Claim C4 (amended). When the tool cannot be run, or its output has no power measurement
  line, or the line does not say Active (the Not Available case), \<open>Update\<close> sends the
  cached readings as the samples of the scrape (none when the cache is empty) and leaves
  the cache unchanged. A successful scrape sends the readings \<open>> 0\<close> and stores them in
  the cache.
\<close>

theorem Update_serves_cache:
  "(getPowerReadings c cmdResult = Inl err \<longrightarrow>
      Update c cmdResult = (c, emitted (cachedMetric c))
      \<and> (cachedMetric c = Map.empty \<longrightarrow> snd (Update c cmdResult) = Map.empty))
   \<and> (getValue ipmiOutput ipmiDCMIPowerMeasurementRegex \<noteq> Inr ''Active'' \<longrightarrow>
        (\<exists>e. getPowerReadings c (Inr ipmiOutput) = Inl e))
   \<and> (getPowerReadings c cmdResult = Inr readings \<longrightarrow>
        Update c cmdResult =
          (c\<lparr>cachedMetric := cachedMetric c ++ emitted readings\<rparr>, emitted readings))"
proof (intro conjI impI)
  assume "getPowerReadings c cmdResult = Inl err"
  then show "Update c cmdResult = (c, emitted (cachedMetric c))"
    by (simp add: Update_def Let_def)
  then show "snd (Update c cmdResult) = Map.empty" if "cachedMetric c = Map.empty"
    using that by simp
next
  assume "getValue ipmiOutput ipmiDCMIPowerMeasurementRegex \<noteq> Inr ''Active''"
  then show "\<exists>e. getPowerReadings c (Inr ipmiOutput) = Inl e"
    by (auto simp: getPowerReadings_def executeIPMICmd_def parseIPMIOutput_def split: sum.splits)
next
  assume "getPowerReadings c cmdResult = Inr readings"
  then show "Update c cmdResult =
      (c\<lparr>cachedMetric := cachedMetric c ++ emitted readings\<rparr>, emitted readings)"
    by (simp add: Update_def Let_def)
qed

lemma example_not_available:
  "getValue example_ipmi_not_available ipmiDCMIPowerMeasurementRegex = Inr ''Not Available''"
  by (simp add: example_ipmi_not_available_def getValue_def ipmiDCMIPowerMeasurementRegex_def
      matchLabel_def stripPrefix_def HasPrefix_def isSpace_def)

lemma example_active:
  "getValue example_ipmi_active ipmiDCMIPowerMeasurementRegex = Inr ''Active''"
  "getValue example_ipmi_active (powerReadingRegex ''Current Power'') = Inr ''164''"
  "getValue example_ipmi_active (powerReadingRegex ''Minimum Power over sampling duration'') = Inr ''48''"
  "getValue example_ipmi_active (powerReadingRegex ''Maximum Power over sampling duration'') = Inr ''361''"
  by (simp_all add: example_ipmi_active_def getValue_def ipmiDCMIPowerMeasurementRegex_def
      powerReadingRegex_def matchLabel_def stripPrefix_def HasPrefix_def isSpace_def isDigitOrDot_def)

lemma example_ParseFloat:
  "ParseFloat ''164'' = Some 164" "ParseFloat ''48'' = Some 48" "ParseFloat ''361'' = Some 361"
  by (simp_all add: ParseFloat_def isDigit_def decimal_def)

lemma example_parse_active:
  "parseIPMIOutput example_ipmi_active =
     Inr [''current'' \<mapsto> 164, ''min'' \<mapsto> 48, ''max'' \<mapsto> 361]"
  by (simp add: parseIPMIOutput_def example_active ipmiDCMIPowerReadingRegexMap_def
      example_ParseFloat)

lemma example_getPowerReadings:
  "getPowerReadings (example_ipmi_collector cache) (Inr example_ipmi_not_available) = Inl NotActive"
  "getPowerReadings (example_ipmi_collector cache) (Inr example_ipmi_active) =
     Inr [''current'' \<mapsto> 164, ''min'' \<mapsto> 48, ''max'' \<mapsto> 361]"
  by (simp_all add: getPowerReadings_def executeIPMICmd_def example_ipmi_collector_def
      parseIPMIOutput_def example_not_available example_parse_active [unfolded parseIPMIOutput_def])

lemma example_ipmi_cache: "cachedMetric (example_ipmi_collector cache) = cache"
  by (simp add: example_ipmi_collector_def)

theorem Update_serves_cache_witness:
  "snd (Update (example_ipmi_collector [''current'' \<mapsto> 164]) (Inr example_ipmi_not_available))
      ''current'' = Some 164
   \<and> fst (Update (example_ipmi_collector [''current'' \<mapsto> 164]) (Inr example_ipmi_not_available))
      = example_ipmi_collector [''current'' \<mapsto> 164]
   \<and> snd (Update (example_ipmi_collector Map.empty) (Inr example_ipmi_not_available)) = Map.empty
   \<and> snd (Update (example_ipmi_collector Map.empty) (Inr example_ipmi_active)) ''current'' = Some 164
   \<and> cachedMetric (fst (Update (example_ipmi_collector Map.empty) (Inr example_ipmi_active))) ''max''
      = Some 361"
proof -
  note a = Update_serves_cache [of "example_ipmi_collector [''current'' \<mapsto> 164]"
      "Inr example_ipmi_not_available" NotActive example_ipmi_not_available
      "[''current'' \<mapsto> 164, ''min'' \<mapsto> 48, ''max'' \<mapsto> 361]"]
  note b = Update_serves_cache [of "example_ipmi_collector Map.empty"
      "Inr example_ipmi_not_available" NotActive example_ipmi_not_available
      "[''current'' \<mapsto> 164, ''min'' \<mapsto> 48, ''max'' \<mapsto> 361]"]
  note c = Update_serves_cache [of "example_ipmi_collector Map.empty"
      "Inr example_ipmi_active" NotActive example_ipmi_not_available
      "[''current'' \<mapsto> 164, ''min'' \<mapsto> 48, ''max'' \<mapsto> 361]"]
  have 1: "Update (example_ipmi_collector [''current'' \<mapsto> 164]) (Inr example_ipmi_not_available)
      = (example_ipmi_collector [''current'' \<mapsto> 164],
         emitted (cachedMetric (example_ipmi_collector [''current'' \<mapsto> 164])))"
    using a [THEN conjunct1] by (simp add: example_getPowerReadings)
  have 2: "snd (Update (example_ipmi_collector Map.empty) (Inr example_ipmi_not_available)) = Map.empty"
    using b [THEN conjunct1] by (simp add: example_getPowerReadings example_ipmi_cache)
  have 3: "Update (example_ipmi_collector Map.empty) (Inr example_ipmi_active) =
      ((example_ipmi_collector Map.empty)\<lparr>cachedMetric :=
          cachedMetric (example_ipmi_collector Map.empty)
          ++ emitted [''current'' \<mapsto> 164, ''min'' \<mapsto> 48, ''max'' \<mapsto> 361]\<rparr>,
       emitted [''current'' \<mapsto> 164, ''min'' \<mapsto> 48, ''max'' \<mapsto> 361])"
    using c [THEN conjunct2, THEN conjunct2] by (simp add: example_getPowerReadings)
  show ?thesis
    unfolding 1 3 using 2 by (simp add: emitted_def example_ipmi_cache)
qed

text \<open>
  Claim C4 as stated fails: with a reading of 164 watts in the cache, a scrape whose output
  says \<open>Power Measurement : Not Available\<close> sends a sample of 164 watts.
\<close>

theorem Update_not_available_counterexample:
  "snd (Update (example_ipmi_collector [''current'' \<mapsto> 164]) (Inr example_ipmi_not_available))
      ''current'' = Some 164"
  by (simp add: Update_def Let_def example_getPowerReadings emitted_def example_ipmi_cache)

section \<open>Properties of the units endpoints\<close>

text \<open>
  Claim C10. A request to \<open>/units\<close> with at least one \<open>uuid\<close> parameter is answered without
  looking at the query window: the response is that of the database query, a success
  whenever the query returns units, whatever \<open>from\<close> and \<open>to\<close> are. The same request
  without \<open>uuid\<close> parameters, with a maximum query period configured and a window from
  \<open>from\<close> to \<open>to\<close> longer than it, is answered with the error
  \<open>maximum query window exceeded\<close>.
\<close>

theorem units_uuid_skips_window:
  "(URLQuery r ''uuid'' \<noteq> [] \<longrightarrow>
      units s clk r = queryUnits s (unitsUuidQuery s r)
      \<and> (\<forall>us. Querier s (unitsUuidQuery s r) = Inr us \<longrightarrow> units s clk r = Success us))
   \<and> (URLQuery r ''uuid'' = [] \<and> maxQueryPeriod s > 0
        \<and> Atoi (Get (URLQuery r) ''from'') = Some f \<and> Atoi (Get (URLQuery r) ''to'') = Some t
        \<and> Sub (Unix t) (Unix f) > maxQueryPeriod s \<longrightarrow>
        units s clk r = ErrorResponse errorBadData ''maximum query window exceeded'')"
proof (intro conjI impI allI)
  assume u: "URLQuery r ''uuid'' \<noteq> []"
  then show 1: "units s clk r = queryUnits s (unitsUuidQuery s r)"
    by (simp add: units_def unitsQuerier_def Let_def unitsUuidQuery_def getUser_def)
  show "units s clk r = Success us" if "Querier s (unitsUuidQuery s r) = Inr us" for us
    unfolding 1 using that by (simp add: queryUnits_def)
next
  assume a: "URLQuery r ''uuid'' = [] \<and> maxQueryPeriod s > 0
        \<and> Atoi (Get (URLQuery r) ''from'') = Some f \<and> Atoi (Get (URLQuery r) ''to'') = Some t
        \<and> Sub (Unix t) (Unix f) > maxQueryPeriod s"
  then have "Get (URLQuery r) ''from'' \<noteq> []" "Get (URLQuery r) ''to'' \<noteq> []"
    by (auto simp: Atoi_def)
  with a have "getQueryWindow s clk r = Inl ''maximum query window exceeded''"
    by (simp add: getQueryWindow_def Let_def)
  with a show "units s clk r = ErrorResponse errorBadData ''maximum query window exceeded''"
    by (simp add: units_def unitsQuerier_def Let_def)
qed

lemma example_window:
  "Atoi ''1672527600'' = Some 1672527600" "Atoi ''1685570400'' = Some 1685570400"
  "Sub (Unix 1685570400) (Unix 1672527600) = 13042800 * second"
  by (simp_all add: Atoi_def isDigit_def decimal_def Sub_def Unix_def wrap64_def unixToInternal_def
      second_def)

theorem units_uuid_skips_window_witness:
  "units example_server \<lparr>nowFrom = 0, nowTo = 0\<rparr> (example_request [''foo-bar''])
     = Success mockServerUnits
   \<and> units example_server \<lparr>nowFrom = 0, nowTo = 0\<rparr> (example_request [])
     = ErrorResponse errorBadData ''maximum query window exceeded''"
proof -
  note a = units_uuid_skips_window [of "example_request [''foo-bar'']" example_server
      "\<lparr>nowFrom = 0, nowTo = 0\<rparr>" 1672527600 1685570400]
  note b = units_uuid_skips_window [of "example_request []" example_server
      "\<lparr>nowFrom = 0, nowTo = 0\<rparr>" 1672527600 1685570400]
  have 1: "units example_server \<lparr>nowFrom = 0, nowTo = 0\<rparr> (example_request [''foo-bar''])
     = Success mockServerUnits"
    using a [THEN conjunct1] by (simp add: example_request_def example_server_def queryUnits_def)
  have 2: "units example_server \<lparr>nowFrom = 0, nowTo = 0\<rparr> (example_request [])
     = ErrorResponse errorBadData ''maximum query window exceeded''"
    using b [THEN conjunct2]
    by (simp add: example_request_def example_server_def Get_def example_window second_def)
  from 1 2 show ?thesis by (rule conjI)
qed

section \<open>Properties of the ownership verification\<close>

text \<open>
  Claim C3. For a user and a non-empty list of queried UUIDs, the ownership verification
  endpoint returns 200 if and only if, for every UUID of the list, the user is the direct
  owner of the unit or shares a project or account with it; when the check fails for at
  least one UUID the response is 403.
\<close>

theorem verifyUnitsOwnership_status:
  assumes "URLQuery r ''uuid'' \<noteq> []"
  shows "(fst (verifyUnitsOwnership db r) = 200 \<longleftrightarrow>
           (\<forall>uuid\<in>set (URLQuery r ''uuid'').
              owns db (dashboardUserHeader r) uuid \<or> sharesProject db (dashboardUserHeader r) uuid))
    \<and> ((\<exists>uuid\<in>set (URLQuery r ''uuid'').
           \<not> (owns db (dashboardUserHeader r) uuid \<or> sharesProject db (dashboardUserHeader r) uuid))
         \<longrightarrow> fst (verifyUnitsOwnership db r) = 403)"
  by (auto simp: verifyUnitsOwnership_def VerifyOwnership_def getUser_def Let_def statusOf_def
      list_all_iff)

theorem verifyUnitsOwnership_status_witness:
  "fst (verifyUnitsOwnership example_ownershipDB (example_verify_request [''X'', ''Z''])) = 200
   \<and> fst (verifyUnitsOwnership example_ownershipDB (example_verify_request [''X'', ''Y''])) = 403"
proof -
  have a: "URLQuery (example_verify_request [''X'', ''Z'']) ''uuid'' \<noteq> []"
    and b: "URLQuery (example_verify_request [''X'', ''Y'']) ''uuid'' \<noteq> []"
    by (simp_all add: example_verify_request_def)
  have 1: "fst (verifyUnitsOwnership example_ownershipDB (example_verify_request [''X'', ''Z''])) = 200"
    using verifyUnitsOwnership_status [OF a, of example_ownershipDB, THEN conjunct1]
    by (simp add: example_verify_request_def example_ownershipDB_def)
  have 2: "fst (verifyUnitsOwnership example_ownershipDB (example_verify_request [''X'', ''Y''])) = 403"
    using verifyUnitsOwnership_status [OF b, of example_ownershipDB, THEN conjunct2]
    by (simp add: example_verify_request_def example_ownershipDB_def)
  from 1 2 show ?thesis by (rule conjI)
qed

section \<open>Properties of the retention cache\<close>

lemma foldl_refreshRetention:
  "RetentionPeriod (foldl refreshRetention b responses) =
     (case lastParsed responses of None \<Rightarrow> RetentionPeriod b | Some d \<Rightarrow> d)"
proof (induction responses arbitrary: b)
  case Nil
  then show ?case by simp
next
  case (Cons response responses)
  have "RetentionPeriod (refreshRetention b response) =
      (case response of None \<Rightarrow> RetentionPeriod b
       | Some s \<Rightarrow> (case parseRetention s of None \<Rightarrow> RetentionPeriod b | Some d \<Rightarrow> d))"
    by (simp add: refreshRetention_def RetentionPeriod_def split: option.splits)
  then show ?case
    using Cons.IH [of "refreshRetention b response"] by (simp split: option.splits)
qed

lemma example_retention:
  "parseRetention ''30d'' = Some (720 * 3600 * second)"
  "parseRetention ''30d or 10GiB'' = Some (720 * 3600 * second)"
  "parseRetention ''dummy'' = None"
  by (simp_all add: parseRetention_def durationComponent_def parseDuration_def durationUnit_def
      isDigit_def decimal_def)

text \<open>
  Claim C7. The cached retention period of a backend is the duration component of the last
  status response that parsed (\<open>30d\<close> and \<open>30d or 10GiB\<close> both give 720 hours), whatever
  failed refreshes come after it; a failed refresh leaves the value as it is, so after the
  backend has become unreachable \<open>RetentionPeriod\<close> still returns the last parsed value.
\<close>

theorem RetentionPeriod_last_parsed:
  "RetentionPeriod (foldl refreshRetention b responses) =
     (case lastParsed responses of None \<Rightarrow> RetentionPeriod b | Some d \<Rightarrow> d)
   \<and> RetentionPeriod (refreshRetention b None) = RetentionPeriod b
   \<and> RetentionPeriod (refreshRetention (New u (Some ''30d'')) None) = 720 * 3600 * second
   \<and> RetentionPeriod (New u (Some ''30d or 10GiB'')) = 720 * 3600 * second"
  by (simp add: foldl_refreshRetention)
    (simp add: refreshRetention_def RetentionPeriod_def New_def example_retention)

theorem RetentionPeriod_last_parsed_witness:
  "RetentionPeriod
     (foldl refreshRetention (New ''http://localhost:3333'' (Some ''30d''))
        [None, Some ''dummy'', Some ''15d or 10GiB'', None]) = 360 * 3600 * second"
proof -
  have "parseRetention ''15d or 10GiB'' = Some (360 * 3600 * second)"
    by (simp add: parseRetention_def durationComponent_def parseDuration_def durationUnit_def
        isDigit_def decimal_def)
  then show ?thesis
    using RetentionPeriod_last_parsed [of "New ''http://localhost:3333'' (Some ''30d'')"
        "[None, Some ''dummy'', Some ''15d or 10GiB'', None]" "''http://localhost:3333''",
        THEN conjunct1]
    by (simp add: example_retention del: foldl_Cons)
qed

end
